theory Spec2Isabelle
  imports Complex_Main "HOL-Library.Word" "HOL-Library.Log_Nat" "HOL-Library.Multiset"
begin

section \<open>Python values of a decoded payload\<close>

text \<open>
  The scraper of \<^verbatim>\<open>src/scrape_2up_api_only.py\<close> works on decoded JSON: dicts, lists,
  strings, numbers, booleans and \<^verbatim>\<open>None\<close>. A Python \<^verbatim>\<open>str\<close> is modelled by the bytes of
  its UTF-8 encoding, so U+2212 (the unicode minus) is the three bytes E2 88 92; a lone
  surrogate, which \<^verbatim>\<open>json.loads\<close> does deliver, is the three bytes of its code point. A
  Python \<^verbatim>\<open>float\<close> is an IEEE binary64 value: a finite one is given by the rational it
  denotes, and the two infinities, the not-a-number and the negative zero are values of
  their own. A dict with string keys is an association list whose first binding of a key
  is the dict's binding.
\<close>

datatype pyfloat = Fin rat | NegZero | PosInf | NegInf | NaN

datatype pyval =
    PNone
  | PBool bool
  | PInt int
  | PFloat pyfloat
  | PStr string
  | PList "pyval list"
  | PDict "(string \<times> pyval) list"

text \<open>
  The exceptions that leave a function of the source. \<open>RequestError\<close> is what
  \<^verbatim>\<open>session.post\<close> raises, \<open>ApiStatus\<close> and \<open>EnvelopeError\<close> are the two \<^verbatim>\<open>RuntimeError\<close>s of
  lines 394 and 406, \<open>OutputError\<close> is what writing the output file raises.
\<close>

datatype error =
    RequestError
  | ApiStatus int
  | JSONDecodeError
  | EnvelopeError
  | AttributeError
  | TypeError
  | ValueError
  | OverflowError
  | OSError
  | UnicodeEncodeError
  | OutputError

subsection \<open>Floats: comparison, rounding to binary64, the format \<^verbatim>\<open>.3f\<close>\<close>

fun float_is_zero :: "pyfloat \<Rightarrow> bool" where
  "float_is_zero (Fin q) = (q = 0)"
| "float_is_zero NegZero = True"
| "float_is_zero _ = False"

text \<open>The value of a float that is a number, on the extended line: \<open>None\<close> for NaN.\<close>

datatype ext = MinusInfinity | Number rat | PlusInfinity

fun float_ext :: "pyfloat \<Rightarrow> ext option" where
  "float_ext (Fin q) = Some (Number q)"
| "float_ext NegZero = Some (Number 0)"
| "float_ext PosInf = Some PlusInfinity"
| "float_ext NegInf = Some MinusInfinity"
| "float_ext NaN = None"

fun ext_lt :: "ext \<Rightarrow> ext \<Rightarrow> bool" where
  "ext_lt MinusInfinity b = (b \<noteq> MinusInfinity)"
| "ext_lt (Number q) (Number r) = (q < r)"
| "ext_lt (Number q) PlusInfinity = True"
| "ext_lt (Number q) MinusInfinity = False"
| "ext_lt PlusInfinity b = False"

text \<open>Python's \<^verbatim>\<open><\<close> and \<^verbatim>\<open>==\<close> on floats: every comparison with NaN is false.\<close>

definition float_lt :: "pyfloat \<Rightarrow> pyfloat \<Rightarrow> bool" where
  "float_lt a b =
     (case (float_ext a, float_ext b) of (Some x, Some y) \<Rightarrow> ext_lt x y | _ \<Rightarrow> False)"

definition float_eq :: "pyfloat \<Rightarrow> pyfloat \<Rightarrow> bool" where
  "float_eq a b =
     (case (float_ext a, float_ext b) of (Some x, Some y) \<Rightarrow> x = y | _ \<Rightarrow> False)"

definition float_le :: "pyfloat \<Rightarrow> pyfloat \<Rightarrow> bool" where
  "float_le a b = (float_lt a b \<or> float_eq a b)"

definition round_half_even :: "rat \<Rightarrow> int" where
  "round_half_even q =
     (let f = \<lfloor>q\<rfloor>; d = q - of_int f
      in if d < 1 / 2 then f else if 1 / 2 < d then f + 1 else if even f then f else f + 1)"

definition pow2 :: "int \<Rightarrow> rat" where
  "pow2 e = (if 0 \<le> e then 2 ^ nat e else 1 / 2 ^ nat (- e))"

text \<open>The fraction \<open>n / d\<close> divided by \<open>2^e\<close>, as a fraction again.\<close>

definition scale2 :: "int \<Rightarrow> nat \<times> nat \<Rightarrow> nat \<times> nat" where
  "scale2 e nd = (if 0 \<le> e then (fst nd, snd nd * 2 ^ nat e) else (fst nd * 2 ^ nat (- e), snd nd))"

text \<open>\<open>ilog2 n d\<close> is the integer \<open>k\<close> with \<open>2^k \<le> n / d < 2^(k+1)\<close>, for positive \<open>n\<close>, \<open>d\<close>.\<close>

definition ilog2 :: "nat \<Rightarrow> nat \<Rightarrow> int" where
  "ilog2 n d =
     (let c = bitlen (int n) - bitlen (int d); s = scale2 c (n, d)
      in if snd s \<le> fst s then c else c - 1)"

text \<open>The integer nearest to \<open>n / d\<close>, ties to the even one.\<close>

definition round_div :: "nat \<Rightarrow> nat \<Rightarrow> nat" where
  "round_div n d =
     (let q = n div d; r = n mod d
      in if 2 * r < d then q else if d < 2 * r then q + 1 else if even q then q else q + 1)"

text \<open>
  \<open>binary64 neg n d\<close> is the binary64 value nearest to the magnitude \<open>n / d\<close> with the
  sign \<open>neg\<close>, ties to the even significand: 53 bits of significand, the least exponent
  of a subnormal \<open>-1074\<close>, an infinity from \<open>2^1024\<close> on.
\<close>

definition binary64 :: "bool \<Rightarrow> nat \<Rightarrow> nat \<Rightarrow> pyfloat" where
  "binary64 neg n d =
     (if n = 0 then (if neg then NegZero else Fin 0)
      else
        let e = max (ilog2 n d - 52) (- 1074);
            s = scale2 e (n, d);
            m = round_div (fst s) (snd s);
            v = of_nat m * pow2 e
        in if 2 ^ 1024 \<le> v then (if neg then NegInf else PosInf)
           else if m = 0 then (if neg then NegZero else Fin 0)
           else Fin (if neg then - v else v))"

text \<open>\<^verbatim>\<open>float(n)\<close> of an int raises OverflowError when the rounded value is not finite.\<close>

definition float_of_int :: "int \<Rightarrow> pyfloat option" where
  "float_of_int n =
     (case binary64 (n < 0) (nat \<bar>n\<bar>) 1 of PosInf \<Rightarrow> None | NegInf \<Rightarrow> None | f \<Rightarrow> Some f)"

definition digit_char :: "nat \<Rightarrow> char" where
  "digit_char d = ''0123456789'' ! d"

fun digits_of :: "nat \<Rightarrow> string" where
  "digits_of n = (if n < 10 then [digit_char n] else digits_of (n div 10) @ [digit_char (n mod 10)])"

declare digits_of.simps [simp del]

text \<open>\<^verbatim>\<open>f"{val:.3f}"\<close>: the exact value rounded to three decimals, ties to even.\<close>

definition fixed3 :: "rat \<Rightarrow> string" where
  "fixed3 a =
     (let n = nat (round_half_even (a * 1000)); f = n mod 1000
      in digits_of (n div 1000) @ ''.'' @
         [digit_char (f div 100), digit_char (f div 10 mod 10), digit_char (f mod 10)])"

fun format_3f :: "pyfloat \<Rightarrow> string" where
  "format_3f (Fin q) = (if q < 0 then ''-'' @ fixed3 (- q) else fixed3 q)"
| "format_3f NegZero = ''-0.000''"
| "format_3f PosInf = ''inf''"
| "format_3f NegInf = ''-inf''"
| "format_3f NaN = ''nan''"

subsection \<open>Strings\<close>

text \<open>The characters of a string: each leading byte with the continuation bytes after it.\<close>

definition is_ascii :: "string \<Rightarrow> bool" where
  "is_ascii s = list_all (\<lambda>c. (of_char c :: nat) < 128) s"

definition is_continuation :: "char \<Rightarrow> bool" where
  "is_continuation c = (let n = (of_char c :: nat) in 128 \<le> n \<and> n < 192)"

function chars :: "string \<Rightarrow> string list" where
  "chars [] = []"
| "chars (c # cs) = (c # takeWhile is_continuation cs) # chars (dropWhile is_continuation cs)"
  by pat_completeness auto
termination
  by (relation "measure length") (auto simp: length_dropWhile_le less_Suc_eq_le)

definition code_point :: "string \<Rightarrow> nat" where
  "code_point ch =
     (case ch of
        [] \<Rightarrow> 0
      | c # cs \<Rightarrow>
          let n = (of_char c :: nat);
              lead = (if n < 128 then n else if n < 224 then n - 192
                      else if n < 240 then n - 224 else n - 240)
          in foldl (\<lambda>acc b. 64 * acc + ((of_char b :: nat) - 128)) lead cs)"

text \<open>
  \<^verbatim>\<open>Py_UNICODE_ISSPACE\<close> outside ASCII: the white space of Unicode, the same set in every
  version of Unicode that an interpreter able to run the source has.
\<close>

definition unicode_isspace :: "nat \<Rightarrow> bool" where
  "unicode_isspace c =
     (c = 0x85 \<or> c = 0xA0 \<or> c = 0x1680 \<or> (0x2000 \<le> c \<and> c \<le> 0x200A) \<or> c = 0x2028
      \<or> c = 0x2029 \<or> c = 0x202F \<or> c = 0x205F \<or> c = 0x3000)"

text \<open>
  What the source takes from the Python library and the machine without defining it:
  the SHA-256 digest of a byte string; the ISO text of the UTC date of a millisecond
  timestamp, as \<^verbatim>\<open>datetime.fromtimestamp(ms / 1000, tz=timezone.utc).isoformat()\<close> gives it,
  or the exception raised; the text \<^verbatim>\<open>str\<close> gives for a float, a list or a dict; of the
  Unicode tables of the interpreter, the ASCII digit of a decimal digit outside ASCII
  (\<^verbatim>\<open>Py_UNICODE_TODECIMAL\<close>), the characters outside ASCII that \<^verbatim>\<open>str.isdigit\<close> accepts, and
  \<^verbatim>\<open>str.lower\<close> on a string that is not ASCII; the limit on the digits of a string that \<^verbatim>\<open>int\<close>
  reads (\<^verbatim>\<open>sys.get_int_max_str_digits()\<close>, 0 when there is none); the order in which \<^verbatim>\<open>list.sort\<close> leaves a
  list whose keys \<^verbatim>\<open><\<close> does not order, as indices into the list; and the exception, if
  any, that the file system raises when the output file is made and written (lines
  445-450).
\<close>

record pyenv =
  sha256 :: "string \<Rightarrow> 256 word"
  isoformat_utc :: "int \<Rightarrow> error + string"
  repr :: "pyval \<Rightarrow> string"
  unicode_todecimal :: "nat \<Rightarrow> char option"
  unicode_isdigit :: "nat \<Rightarrow> bool"
  str_lower :: "string \<Rightarrow> string"
  int_max_str_digits :: nat
  sort_order :: "pyfloat list \<Rightarrow> nat list"
  output_error :: "error option"

definition lower_char :: "char \<Rightarrow> char" where
  "lower_char c =
     (case map_of (zip ''ABCDEFGHIJKLMNOPQRSTUVWXYZ'' ''abcdefghijklmnopqrstuvwxyz'') c of
        None \<Rightarrow> c
      | Some l \<Rightarrow> l)"

text \<open>\<^verbatim>\<open>str.lower()\<close>: the letters A to Z of an ASCII string, the library's tables otherwise.\<close>

definition lower :: "pyenv \<Rightarrow> string \<Rightarrow> string" where
  "lower env s = (if is_ascii s then map lower_char s else str_lower env s)"

text \<open>\<^verbatim>\<open>s.replace(old, new)\<close>, for the non-empty \<open>old\<close> of every call in the source.\<close>

function replace :: "string \<Rightarrow> string \<Rightarrow> string \<Rightarrow> string" where
  "replace old new [] = []"
| "replace old new (c # cs) =
     (if old \<noteq> [] \<and> take (length old) (c # cs) = old
      then new @ replace old new (drop (length old) (c # cs))
      else c # replace old new cs)"
  by pat_completeness auto
termination
  by (relation "measure (\<lambda>(old, new, s). length s)") auto

text \<open>\<^verbatim>\<open>sub in s\<close> on strings.\<close>

fun contains :: "string \<Rightarrow> string \<Rightarrow> bool" where
  "contains sub [] = (sub = [])"
| "contains sub (c # cs) = (take (length sub) (c # cs) = sub \<or> contains sub cs)"

text \<open>U+2212, the unicode minus sign, in UTF-8.\<close>

definition unicode_minus :: string where
  "unicode_minus = [CHR 0xE2, CHR 0x88, CHR 0x92]"

text \<open>
  \<^verbatim>\<open>s.encode("utf-8")\<close>: the bytes of the string, and UnicodeEncodeError when a character is
  a surrogate.
\<close>

definition encode_utf8 :: "string \<Rightarrow> error + string" where
  "encode_utf8 s =
     (if list_ex (\<lambda>ch. 0xD800 \<le> code_point ch \<and> code_point ch \<le> 0xDFFF) (chars s)
      then Inl UnicodeEncodeError else Inr s)"

subsection \<open>The text of a number\<close>

definition is_digit :: "char \<Rightarrow> bool" where
  "is_digit c = (let n = (of_char c :: nat) in 48 \<le> n \<and> n \<le> 57)"

definition digit_val :: "char \<Rightarrow> nat" where
  "digit_val c = of_char c - 48"

text \<open>
  \<^verbatim>\<open>float\<close> and \<^verbatim>\<open>int\<close> first map a string that is not ASCII to ASCII
  (\<^verbatim>\<open>_PyUnicode_TransformDecimalAndSpaceToASCII\<close>): a character below 127 is kept, white
  space becomes a space, a decimal digit its ASCII digit, and at any other character the
  text ends with a question mark.
\<close>

fun decimal_and_space_to_ascii :: "pyenv \<Rightarrow> string list \<Rightarrow> string" where
  "decimal_and_space_to_ascii env [] = []"
| "decimal_and_space_to_ascii env (ch # chs) =
     (let c = code_point ch
      in if c < 127 then ch @ decimal_and_space_to_ascii env chs
         else if unicode_isspace c then CHR '' '' # decimal_and_space_to_ascii env chs
         else (case unicode_todecimal env c of
                 None \<Rightarrow> ''?''
               | Some d \<Rightarrow> d # decimal_and_space_to_ascii env chs))"

definition to_ascii :: "pyenv \<Rightarrow> string \<Rightarrow> string" where
  "to_ascii env s = (if is_ascii s then s else decimal_and_space_to_ascii env (chars s))"

text \<open>The white space that \<^verbatim>\<open>float\<close> and \<^verbatim>\<open>int\<close> strip from the ASCII text: \<^verbatim>\<open>Py_ISSPACE\<close>.\<close>

definition is_space :: "char \<Rightarrow> bool" where
  "is_space c = (let n = (of_char c :: nat) in (9 \<le> n \<and> n \<le> 13) \<or> n = 32)"

definition strip :: "string \<Rightarrow> string" where
  "strip s = rev (dropWhile is_space (rev (dropWhile is_space s)))"

text \<open>\<^verbatim>\<open>str.isdigit()\<close>: at least one character, all of them digits.\<close>

definition isdigit :: "pyenv \<Rightarrow> string \<Rightarrow> bool" where
  "isdigit env s =
     (s \<noteq> [] \<and>
      list_all (\<lambda>ch. let c = code_point ch
                     in if c < 128 then 48 \<le> c \<and> c \<le> 57 else unicode_isdigit env c) (chars s))"

text \<open>
  A \<^verbatim>\<open>digitpart\<close> of Python's number grammar: digits, with single underscores allowed
  between two digits. Returns the digits read and the rest of the text.
\<close>

fun digitpart :: "string \<Rightarrow> nat list \<times> string" where
  "digitpart [] = ([], [])"
| "digitpart (c # cs) =
     (if \<not> is_digit c then ([], c # cs)
      else
        (case cs of
           u # d # r \<Rightarrow>
             if u = CHR ''_'' \<and> is_digit d
             then (let (ds, rest) = digitpart (d # r) in (digit_val c # ds, rest))
             else (let (ds, rest) = digitpart cs in (digit_val c # ds, rest))
         | _ \<Rightarrow> (let (ds, rest) = digitpart cs in (digit_val c # ds, rest))))"

definition nat_of_digits :: "nat list \<Rightarrow> nat" where
  "nat_of_digits ds = foldl (\<lambda>acc d. 10 * acc + d) 0 ds"

text \<open>An optional sign: whether it is a minus, and the rest.\<close>

fun sign_part :: "string \<Rightarrow> bool \<times> string" where
  "sign_part [] = (False, [])"
| "sign_part (c # cs) =
     (if c = CHR ''-'' then (True, cs) else if c = CHR ''+'' then (False, cs) else (False, c # cs))"

text \<open>
  \<^verbatim>\<open>int(s)\<close> of a string in base 10; \<open>None\<close> is the ValueError, also raised for more than
  640 digits when they exceed the limit of the interpreter.
\<close>

definition int_of_str :: "pyenv \<Rightarrow> string \<Rightarrow> int option" where
  "int_of_str env s =
     (let (neg, body) = sign_part (strip (to_ascii env s)); (ds, rest) = digitpart body
      in if ds = [] \<or> rest \<noteq> [] then None
         else if 640 < length ds \<and> 0 < int_max_str_digits env
                 \<and> int_max_str_digits env < length ds then None
         else Some (if neg then - int (nat_of_digits ds) else int (nat_of_digits ds)))"

text \<open>
  The exponent of a float literal: \<open>Some 0\<close> when there is none, \<open>None\<close> when the text
  after the mantissa is not an exponent.
\<close>

definition exponent_part :: "string \<Rightarrow> int option" where
  "exponent_part s =
     (case s of
        [] \<Rightarrow> Some 0
      | c # cs \<Rightarrow>
          if c = CHR ''e'' \<or> c = CHR ''E''
          then (let (neg, body) = sign_part cs; (ds, rest) = digitpart body
                in if ds = [] \<or> rest \<noteq> [] then None
                   else Some (if neg then - int (nat_of_digits ds) else int (nat_of_digits ds)))
          else None)"

text \<open>
  A decimal literal without its sign, as the exact fraction it writes (numerator and
  denominator): digits with an optional point (a digit on at least one side of it) and
  an optional exponent.
\<close>

definition decimal_literal :: "string \<Rightarrow> (nat \<times> nat) option" where
  "decimal_literal s =
     (let (ip, r1) = digitpart s;
          (fp, r2) = (case r1 of
                        [] \<Rightarrow> ([], [])
                      | c # cs \<Rightarrow> if c = CHR ''.'' then digitpart cs else ([], r1))
      in if ip = [] \<and> fp = [] then None
         else (case exponent_part r2 of
                 None \<Rightarrow> None
               | Some e \<Rightarrow>
                   let m = nat_of_digits (ip @ fp); x = e - int (length fp)
                   in Some (if 0 \<le> x then (m * 10 ^ nat x, 1) else (m, 10 ^ nat (- x)))))"

text \<open>
  \<^verbatim>\<open>float(s)\<close> of a string; \<open>None\<close> is the ValueError. The text is mapped to ASCII and
  white space is stripped; then comes an optional sign and either \<^verbatim>\<open>inf\<close>, \<^verbatim>\<open>infinity\<close> or
  \<^verbatim>\<open>nan\<close> in any case, or a decimal literal, which is rounded to the nearest binary64
  value.
\<close>

definition float_of_str :: "pyenv \<Rightarrow> string \<Rightarrow> pyfloat option" where
  "float_of_str env s =
     (let (neg, body) = sign_part (strip (to_ascii env s)); w = map lower_char body
      in if w = ''inf'' \<or> w = ''infinity'' then Some (if neg then NegInf else PosInf)
         else if w = ''nan'' then Some NaN
         else map_option (\<lambda>(n, d). binary64 neg n d) (decimal_literal body))"

subsection \<open>Truthiness, \<^verbatim>\<open>dict.get\<close>, \<^verbatim>\<open>str\<close>, \<^verbatim>\<open>float\<close>, \<^verbatim>\<open>int\<close>, iteration\<close>

fun truthy :: "pyval \<Rightarrow> bool" where
  "truthy PNone = False"
| "truthy (PBool b) = b"
| "truthy (PInt n) = (n \<noteq> 0)"
| "truthy (PFloat f) = (\<not> float_is_zero f)"
| "truthy (PStr s) = (s \<noteq> [])"
| "truthy (PList xs) = (xs \<noteq> [])"
| "truthy (PDict kvs) = (kvs \<noteq> [])"

text \<open>\<^verbatim>\<open>a or b\<close>.\<close>

definition py_or :: "pyval \<Rightarrow> pyval \<Rightarrow> pyval" where
  "py_or a b = (if truthy a then a else b)"

text \<open>\<^verbatim>\<open>d.get(k)\<close>: only a dict has the method.\<close>

definition dict_get :: "pyval \<Rightarrow> string \<Rightarrow> error + pyval" where
  "dict_get d k =
     (case d of
        PDict kvs \<Rightarrow> Inr (case map_of kvs k of None \<Rightarrow> PNone | Some v \<Rightarrow> v)
      | _ \<Rightarrow> Inl AttributeError)"

definition int_str :: "int \<Rightarrow> string" where
  "int_str n = (if n < 0 then ''-'' @ digits_of (nat (- n)) else digits_of (nat n))"

fun py_str :: "pyenv \<Rightarrow> pyval \<Rightarrow> string" where
  "py_str env PNone = ''None''"
| "py_str env (PBool b) = (if b then ''True'' else ''False'')"
| "py_str env (PInt n) = int_str n"
| "py_str env (PStr s) = s"
| "py_str env v = repr env v"

text \<open>\<^verbatim>\<open>str(v or "")\<close>.\<close>

definition str_or_empty :: "pyenv \<Rightarrow> pyval \<Rightarrow> string" where
  "str_or_empty env v = py_str env (py_or v (PStr []))"

text \<open>\<^verbatim>\<open>float(v)\<close>; \<open>None\<close> is the exception (TypeError, ValueError or OverflowError).\<close>

fun py_float :: "pyenv \<Rightarrow> pyval \<Rightarrow> pyfloat option" where
  "py_float env (PStr s) = float_of_str env s"
| "py_float env (PInt n) = float_of_int n"
| "py_float env (PBool b) = float_of_int (if b then 1 else 0)"
| "py_float env (PFloat f) = Some f"
| "py_float env _ = None"

text \<open>\<^verbatim>\<open>int(v)\<close>: a float is truncated towards zero.\<close>

fun py_int :: "pyenv \<Rightarrow> pyval \<Rightarrow> error + int" where
  "py_int env (PInt n) = Inr n"
| "py_int env (PBool b) = Inr (if b then 1 else 0)"
| "py_int env (PFloat (Fin q)) = Inr (if q < 0 then - \<lfloor>- q\<rfloor> else \<lfloor>q\<rfloor>)"
| "py_int env (PFloat NegZero) = Inr 0"
| "py_int env (PFloat NaN) = Inl ValueError"
| "py_int env (PFloat _) = Inl OverflowError"
| "py_int env (PStr s) = (case int_of_str env s of None \<Rightarrow> Inl ValueError | Some n \<Rightarrow> Inr n)"
| "py_int env _ = Inl TypeError"

text \<open>
  \<^verbatim>\<open>for x in v\<close>: the elements of a list, the characters of a string, the keys of a dict;
  anything else is not iterable.
\<close>

fun iterate :: "pyval \<Rightarrow> error + pyval list" where
  "iterate (PList xs) = Inr xs"
| "iterate (PStr s) = Inr (map PStr (chars s))"
| "iterate (PDict kvs) = Inr (map PStr (remdups (map fst kvs)))"
| "iterate _ = Inl TypeError"

section \<open>Price normalisation\<close>

text \<open>
  \<^verbatim>\<open>format_decimal_str\<close> (lines 70-80): \<^verbatim>\<open>None\<close> for \<^verbatim>\<open>None\<close>, a comma of a string replaced
  by a point, \<^verbatim>\<open>float\<close>, and the format \<^verbatim>\<open>.3f\<close>; every exception gives \<^verbatim>\<open>None\<close>.
\<close>

definition format_decimal_str :: "pyenv \<Rightarrow> pyval \<Rightarrow> string option" where
  "format_decimal_str env v =
     (case v of
        PNone \<Rightarrow> None
      | PStr s \<Rightarrow> map_option format_3f (float_of_str env (replace '','' ''.'' s))
      | _ \<Rightarrow> map_option format_3f (py_float env v))"

section \<open>Market extraction\<close>

text \<open>
  A normalized market block is the dict \<^verbatim>\<open>{"name", "updatedAt", "odds"}\<close>. An entry of
  \<^verbatim>\<open>odds\<close> is the dict of a moneyline (\<^verbatim>\<open>home\<close>, \<^verbatim>\<open>draw\<close>, \<^verbatim>\<open>away\<close>), of a totals line
  (\<^verbatim>\<open>hdp\<close>, \<^verbatim>\<open>over\<close>, \<^verbatim>\<open>under\<close>, a leg being \<^verbatim>\<open>None\<close> until it is priced) or of a handicap
  line (\<^verbatim>\<open>hdp\<close>, \<^verbatim>\<open>home\<close>, \<^verbatim>\<open>away\<close>).
\<close>

datatype odds =
    MoneylineOdds string string string
  | TotalsLine (hdp: pyfloat) (over: "string option") (under: "string option")
  | HandicapLine (hdp: pyfloat) string string

record market_block =
  name :: string
  updatedAt :: string
  odds :: "odds list"

text \<open>Truthiness of an \<^verbatim>\<open>Optional[str]\<close>: \<^verbatim>\<open>if not price: continue\<close> skips the others.\<close>

definition priced :: "string option \<Rightarrow> bool" where
  "priced p = (case p of None \<Rightarrow> False | Some s \<Rightarrow> s \<noteq> [])"

text \<open>\<^verbatim>\<open>s.get("trueOdds") or (s.get("displayOdds") or {}).get("Decimal")\<close>.\<close>

definition selection_odds :: "pyval \<Rightarrow> error + pyval" where
  "selection_odds s =
     (case dict_get s ''trueOdds'' of
        Inl e \<Rightarrow> Inl e
      | Inr t \<Rightarrow>
          if truthy t then Inr t
          else (case dict_get s ''displayOdds'' of
                  Inl e \<Rightarrow> Inl e
                | Inr d \<Rightarrow> dict_get (py_or d (PDict [])) ''Decimal''))"

subsection \<open>Moneyline (lines 163-189)\<close>

type_synonym ml_legs = "string option \<times> string option \<times> string option"

text \<open>The body of the loop over the selections, after the price is computed.\<close>

definition ml_leg :: "string \<Rightarrow> string option \<Rightarrow> ml_legs \<Rightarrow> ml_legs" where
  "ml_leg outcome price legs =
     (case legs of
        (home_p, draw_p, away_p) \<Rightarrow>
          if \<not> priced price then legs
          else if outcome = ''home'' then (price, draw_p, away_p)
          else if outcome = ''tie'' \<or> outcome = ''draw'' then (home_p, price, away_p)
          else if outcome = ''away'' then (home_p, draw_p, price)
          else legs)"

fun ml_selections :: "pyenv \<Rightarrow> pyval list \<Rightarrow> ml_legs \<Rightarrow> error + ml_legs" where
  "ml_selections env [] legs = Inr legs"
| "ml_selections env (s # ss) legs =
     (case dict_get s ''outcomeType'' of
        Inl e \<Rightarrow> Inl e
      | Inr ot \<Rightarrow>
          (case selection_odds s of
             Inl e \<Rightarrow> Inl e
           | Inr dec \<Rightarrow>
               ml_selections env ss
                 (ml_leg (lower env (str_or_empty env ot)) (format_decimal_str env dec) legs)))"

subsection \<open>Totals (lines 191-214)\<close>

text \<open>The handicap point of a totals selection (lines 196-204); \<open>None\<close> skips the selection.\<close>

definition totals_points :: "pyenv \<Rightarrow> pyval \<Rightarrow> pyfloat option" where
  "totals_points env points =
     (case points of
        PStr s \<Rightarrow> float_of_str env (replace '','' ''.'' s)
      | PInt n \<Rightarrow> float_of_int n
      | PBool b \<Rightarrow> float_of_int (if b then 1 else 0)
      | PFloat f \<Rightarrow> Some f
      | _ \<Rightarrow> None)"

text \<open>
  The key of a line is a float object. A dict finds a key that is the same object as the
  one looked up, or equal to it, and NaN is equal to nothing. \<^verbatim>\<open>float(x)\<close> returns \<^verbatim>\<open>x\<close> itself
  when \<^verbatim>\<open>x\<close> is a float and a new object otherwise, and the JSON decoder gives one and the
  same object for every \<^verbatim>\<open>NaN\<close> literal of a payload. So a NaN key is either that object of
  the decoder or, parsed from a string, an object of its own.
\<close>

datatype line_key = FloatKey pyfloat | DecoderNaN

fun key_value :: "line_key \<Rightarrow> pyfloat" where
  "key_value (FloatKey f) = f"
| "key_value DecoderNaN = NaN"

text \<open>The object \<^verbatim>\<open>float(points)\<close> of value \<open>f\<close>.\<close>

definition float_key :: "pyval \<Rightarrow> pyfloat \<Rightarrow> line_key" where
  "float_key points f = (if points = PFloat NaN then DecoderNaN else FloatKey f)"

definition same_key :: "line_key \<Rightarrow> line_key \<Rightarrow> bool" where
  "same_key k' k =
     (float_eq (key_value k') (key_value k) \<or> (k' = DecoderNaN \<and> k = DecoderNaN))"

text \<open>
  A dict keyed by floats, in insertion order. \<open>dict_upsert k f new d\<close> applies \<open>f\<close> to the
  value stored under the key that \<open>k\<close> finds, or stores \<open>f new\<close> under \<open>k\<close> at the end when
  there is none.
\<close>

fun dict_upsert ::
  "line_key \<Rightarrow> ('v \<Rightarrow> 'v) \<Rightarrow> 'v \<Rightarrow> (line_key \<times> 'v) list \<Rightarrow> (line_key \<times> 'v) list" where
  "dict_upsert k f new [] = [(k, f new)]"
| "dict_upsert k f new ((k', v) # d) =
     (if same_key k' k then (k', f v) # d else (k', v) # dict_upsert k f new d)"

text \<open>\<^verbatim>\<open>rec["over"] = price\<close> or \<^verbatim>\<open>rec["under"] = price\<close>, by the selection's label.\<close>

definition set_leg :: "string \<Rightarrow> string \<Rightarrow> odds \<Rightarrow> odds" where
  "set_leg ou price rec =
     (case rec of
        TotalsLine h ov un \<Rightarrow>
          if contains ''over'' ou then TotalsLine h (Some price) un
          else if contains ''under'' ou then TotalsLine h ov (Some price)
          else rec
      | _ \<Rightarrow> rec)"

fun totals_selections ::
  "pyenv \<Rightarrow> pyval list \<Rightarrow> (line_key \<times> odds) list \<Rightarrow> error + (line_key \<times> odds) list" where
  "totals_selections env [] totals_lines = Inr totals_lines"
| "totals_selections env (s # ss) totals_lines =
     (case dict_get s ''outcomeType'' of
        Inl e \<Rightarrow> Inl e
      | Inr ot \<Rightarrow>
          (case dict_get s ''name'' of
             Inl e \<Rightarrow> Inl e
           | Inr nm \<Rightarrow>
               (case dict_get s ''points'' of
                  Inl e \<Rightarrow> Inl e
                | Inr pts \<Rightarrow>
                    (case totals_points env pts of
                       None \<Rightarrow> totals_selections env ss totals_lines
                     | Some points \<Rightarrow>
                         (case selection_odds s of
                            Inl e \<Rightarrow> Inl e
                          | Inr dec \<Rightarrow>
                              (case format_decimal_str env dec of
                                 None \<Rightarrow> totals_selections env ss totals_lines
                               | Some price \<Rightarrow>
                                   if price = [] then totals_selections env ss totals_lines
                                   else totals_selections env ss
                                     (dict_upsert (float_key pts points)
                                        (set_leg (lower env (py_str env (py_or ot (py_or nm (PStr []))))) price)
                                        (TotalsLine points None None) totals_lines)))))))"

subsection \<open>Asian handicap (lines 216-248)\<close>

text \<open>The handicap point of a handicap selection (lines 225-235).\<close>

definition handicap_points :: "pyenv \<Rightarrow> pyval \<Rightarrow> pyfloat option" where
  "handicap_points env points =
     (case points of
        PStr s \<Rightarrow> float_of_str env (replace unicode_minus ''-'' (replace '','' ''.'' s))
      | PInt n \<Rightarrow> float_of_int n
      | PBool b \<Rightarrow> float_of_int (if b then 1 else 0)
      | PFloat f \<Rightarrow> Some f
      | _ \<Rightarrow> None)"

text \<open>\<^verbatim>\<open>home_pts\<close>, \<^verbatim>\<open>home_price\<close>, \<^verbatim>\<open>away_pts\<close>, \<^verbatim>\<open>away_price\<close>.\<close>

type_synonym hc_legs = "line_key option \<times> string option \<times> line_key option \<times> string option"

definition hc_leg :: "string \<Rightarrow> line_key \<Rightarrow> string \<Rightarrow> hc_legs \<Rightarrow> hc_legs" where
  "hc_leg outcome points price legs =
     (case legs of
        (home_pts, home_price, away_pts, away_price) \<Rightarrow>
          if outcome = ''home'' then (Some points, Some price, away_pts, away_price)
          else if outcome = ''away'' then (home_pts, home_price, Some points, Some price)
          else legs)"

fun handicap_selections :: "pyenv \<Rightarrow> pyval list \<Rightarrow> hc_legs \<Rightarrow> error + hc_legs" where
  "handicap_selections env [] legs = Inr legs"
| "handicap_selections env (s # ss) legs =
     (case dict_get s ''outcomeType'' of
        Inl e \<Rightarrow> Inl e
      | Inr ot \<Rightarrow>
          (case dict_get s ''points'' of
             Inl e \<Rightarrow> Inl e
           | Inr pts \<Rightarrow>
               (case handicap_points env pts of
                  None \<Rightarrow> handicap_selections env ss legs
                | Some points \<Rightarrow>
                    (case selection_odds s of
                       Inl e \<Rightarrow> Inl e
                     | Inr dec \<Rightarrow>
                         (case format_decimal_str env dec of
                            None \<Rightarrow> handicap_selections env ss legs
                          | Some price \<Rightarrow>
                              if price = [] then handicap_selections env ss legs
                              else handicap_selections env ss
                                     (hc_leg (lower env (str_or_empty env ot)) (float_key pts points) price
                                        legs))))))"

subsection \<open>The loop over the markets (lines 146-248)\<close>

record extract_state =
  markets_out :: "market_block list"
  ml_done :: bool
  totals_lines :: "(line_key \<times> odds) list"
  handicap_lines :: "(line_key \<times> odds) list"

text \<open>Lines 157-161: a market is the main 1X2 market only as a confirmed one.\<close>

definition is_1x2_main :: "string \<Rightarrow> string \<Rightarrow> bool" where
  "is_1x2_main nm mtid =
     ((nm = ''ft 1x2'' \<or> mtid = ''ml0'') \<and> \<not> contains ''double'' nm \<and> \<not> contains ''chance'' nm)"

definition is_main_confirmed :: "string \<Rightarrow> string \<Rightarrow> bool" where
  "is_main_confirmed nm mtid = is_1x2_main nm mtid"

text \<open>Lines 179-188: what the moneyline branch does with the three legs it found.\<close>

definition add_ml :: "string \<Rightarrow> bool \<Rightarrow> ml_legs \<Rightarrow> extract_state \<Rightarrow> extract_state" where
  "add_ml now_iso confirmed legs st =
     (case legs of
        (Some home_p, Some draw_p, Some away_p) \<Rightarrow>
          if home_p \<noteq> [] \<and> draw_p \<noteq> [] \<and> away_p \<noteq> [] then
            (let existing_ml = find (\<lambda>b. name b = ''ML'') (markets_out st)
             in if confirmed \<or> existing_ml = None then
                  st\<lparr>markets_out :=
                       (if existing_ml \<noteq> None
                        then filter (\<lambda>b. name b \<noteq> ''ML'') (markets_out st)
                        else markets_out st)
                       @ [\<lparr>name = ''ML'', updatedAt = now_iso,
                            odds = [MoneylineOdds home_p draw_p away_p]\<rparr>],
                     ml_done := True\<rparr>
                else st)
          else st
      | _ \<Rightarrow> st)"

text \<open>Line 246-247: the line of a handicap market, stored under the home point.\<close>

definition add_handicap :: "hc_legs \<Rightarrow> extract_state \<Rightarrow> extract_state" where
  "add_handicap legs st =
     (case legs of
        (Some home_pts, Some home_price, Some away_pts, Some away_price) \<Rightarrow>
          if home_price \<noteq> [] \<and> away_price \<noteq> [] then
            st\<lparr>handicap_lines :=
                 dict_upsert home_pts (\<lambda>_. HandicapLine (key_value home_pts) home_price away_price)
                   (HandicapLine (key_value home_pts) home_price away_price) (handicap_lines st)\<rparr>
          else st
      | _ \<Rightarrow> st)"

definition process_market ::
  "pyenv \<Rightarrow> string \<Rightarrow> pyval \<Rightarrow> extract_state \<Rightarrow> error + extract_state" where
  "process_market env now_iso m st =
     (case dict_get m ''name'' of
        Inl e \<Rightarrow> Inl e
      | Inr nm \<Rightarrow>
     (case dict_get m ''marketTypeId'' of
        Inl e \<Rightarrow> Inl e
      | Inr mt \<Rightarrow>
     (case dict_get m ''selections'' of
        Inl e \<Rightarrow> Inl e
      | Inr sel \<Rightarrow>
          let name = lower env (str_or_empty env nm);
              mtid = lower env (str_or_empty env mt);
              selections = py_or sel (PList [])
          in if \<not> ml_done st \<and> is_1x2_main name mtid then
               (case iterate selections of
                  Inl e \<Rightarrow> Inl e
                | Inr ss \<Rightarrow>
                    (case ml_selections env ss (None, None, None) of
                       Inl e \<Rightarrow> Inl e
                     | Inr legs \<Rightarrow> Inr (add_ml now_iso (is_main_confirmed name mtid) legs st)))
             else if name = ''ft o/u'' \<or> mtid = ''ou0'' then
               (case iterate selections of
                  Inl e \<Rightarrow> Inl e
                | Inr ss \<Rightarrow>
                    (case totals_selections env ss (totals_lines st) of
                       Inl e \<Rightarrow> Inl e
                     | Inr d \<Rightarrow> Inr (st\<lparr>totals_lines := d\<rparr>)))
             else if name = ''ft asian handicap'' \<or> mtid = ''hc0'' then
               (case iterate selections of
                  Inl e \<Rightarrow> Inl e
                | Inr ss \<Rightarrow>
                    (case handicap_selections env ss (None, None, None, None) of
                       Inl e \<Rightarrow> Inl e
                     | Inr legs \<Rightarrow> Inr (add_handicap legs st)))
             else Inr st)))"

fun process_markets ::
  "pyenv \<Rightarrow> string \<Rightarrow> pyval list \<Rightarrow> extract_state \<Rightarrow> error + extract_state" where
  "process_markets env now_iso [] st = Inr st"
| "process_markets env now_iso (m # ms) st =
     (case process_market env now_iso m st of
        Inl e \<Rightarrow> Inl e
      | Inr st' \<Rightarrow> process_markets env now_iso ms st')"

subsection \<open>Emission (lines 250-258)\<close>

text \<open>
  \<^verbatim>\<open>list.sort(key=lambda x: x["hdp"])\<close> compares keys with \<^verbatim>\<open><\<close> only. A list in which no key
  is less than the key before it is one ascending run and is left as it is. Otherwise
  the sort is stable: on keys without NaN the result is the one of a stable insertion,
  and on keys with a NaN, which \<^verbatim>\<open><\<close> does not order, it is the permutation that the
  algorithm of the interpreter finds.
\<close>

fun ascending_run :: "pyfloat list \<Rightarrow> bool" where
  "ascending_run (x # y # ys) = (\<not> float_lt y x \<and> ascending_run (y # ys))"
| "ascending_run _ = True"

fun insort_hdp :: "odds \<Rightarrow> odds list \<Rightarrow> odds list" where
  "insort_hdp x [] = [x]"
| "insort_hdp x (y # ys) =
     (if float_lt (hdp y) (hdp x) then y # insort_hdp x ys else x # y # ys)"

definition permute :: "nat list \<Rightarrow> 'a list \<Rightarrow> 'a list" where
  "permute js xs = (if mset js = mset [0..<length xs] then map (\<lambda>j. xs ! j) js else xs)"

definition sort_by_hdp :: "pyenv \<Rightarrow> odds list \<Rightarrow> odds list" where
  "sort_by_hdp env xs =
     (let ks = map hdp xs
      in if ascending_run ks then xs
         else if NaN \<in> set ks then permute (sort_order env ks) xs
         else foldr insort_hdp xs [])"

definition emit_markets :: "pyenv \<Rightarrow> string \<Rightarrow> extract_state \<Rightarrow> market_block list" where
  "emit_markets env now_iso st =
     (let totals_out =
            filter (\<lambda>v. priced (over v) \<and> priced (under v)) (map snd (totals_lines st));
          out1 = (if totals_out \<noteq> []
                  then markets_out st @
                       [\<lparr>name = ''Totals'', updatedAt = now_iso,
                          odds = sort_by_hdp env totals_out\<rparr>]
                  else markets_out st)
      in if handicap_lines st \<noteq> []
         then out1 @
              [\<lparr>name = ''Handicap'', updatedAt = now_iso,
                 odds = sort_by_hdp env (map snd (handicap_lines st))\<rparr>]
         else out1)"

definition extract_markets_from_api ::
  "pyenv \<Rightarrow> string \<Rightarrow> pyval \<Rightarrow> error + market_block list" where
  "extract_markets_from_api env now_iso event_node =
     (case dict_get event_node ''markets'' of
        Inl e \<Rightarrow> Inl e
      | Inr mk \<Rightarrow>
          (case iterate (py_or mk (PList [])) of
             Inl e \<Rightarrow> Inl e
           | Inr all_markets \<Rightarrow>
               (case process_markets env now_iso all_markets
                       \<lparr>markets_out = [], ml_done = False, totals_lines = [], handicap_lines = []\<rparr> of
                  Inl e \<Rightarrow> Inl e
                | Inr st \<Rightarrow> Inr (emit_markets env now_iso st))))"

section \<open>The fixture record\<close>

subsection \<open>The synthetic id (lines 83-86 and 113-117)\<close>

definition hex_char :: "nat \<Rightarrow> char" where
  "hex_char d = ''0123456789abcdef'' ! d"

text \<open>\<^verbatim>\<open>hexdigest()\<close>: the 64 hexadecimal digits of the 256 bits, the highest first.\<close>

definition hexdigest :: "256 word \<Rightarrow> string" where
  "hexdigest w = map (\<lambda>i. hex_char (unat (drop_bit (4 * (63 - i)) w) mod 16)) [0..<64]"

definition hex_val :: "char \<Rightarrow> nat" where
  "hex_val c = (let n = (of_char c :: nat) in if n < 58 then n - 48 else n - 87)"

text \<open>\<^verbatim>\<open>int(s, 16)\<close> of a string of the digits \<^verbatim>\<open>0-9a-f\<close>, as a hex digest is.\<close>

definition int16 :: "string \<Rightarrow> int" where
  "int16 s = int (foldl (\<lambda>acc c. 16 * acc + hex_val c) 0 s)"

text \<open>\<^verbatim>\<open>int(hashlib.sha256(key.encode("utf-8")).hexdigest()[:10], 16)\<close>.\<close>

definition hash_id :: "pyenv \<Rightarrow> string \<Rightarrow> error + int" where
  "hash_id env key =
     (case encode_utf8 key of
        Inl e \<Rightarrow> Inl e
      | Inr bytes \<Rightarrow> Inr (int16 (take 10 (hexdigest (sha256 env bytes)))))"

definition compute_match_id :: "pyenv \<Rightarrow> string \<Rightarrow> string \<Rightarrow> string option \<Rightarrow> error + int" where
  "compute_match_id env home away date_iso =
     hash_id env (home @ ''__'' @ away @ ''__'' @ (case date_iso of None \<Rightarrow> [] | Some d \<Rightarrow> d))"

subsection \<open>The skeleton (lines 89-128)\<close>

record item =
  match_id :: int
  home :: string
  away :: string
  date :: string
  sport :: "string \<times> string"
  league :: "string \<times> string"
  urls :: string
  bookmakers :: "market_block list"
  status :: string

text \<open>
  Lines 93-101: the kick-off time as ISO text. A string of digits is read as an int; an
  int or a float gives the date of that many milliseconds; every exception gives \<^verbatim>\<open>None\<close>.
\<close>

definition event_date_iso :: "pyenv \<Rightarrow> pyval \<Rightarrow> string option" where
  "event_date_iso env event_time =
     (let iso = (\<lambda>n. case isoformat_utc env n of
                        Inl e \<Rightarrow> None
                      | Inr t \<Rightarrow> Some (replace ''+00:00'' ''Z'' t));
          ms = (case event_time of
                  PStr s \<Rightarrow> if isdigit env s then py_int env (PStr s) else Inl TypeError
                | PInt n \<Rightarrow> Inr n
                | PBool b \<Rightarrow> py_int env (PBool b)
                | PFloat f \<Rightarrow> py_int env (PFloat f)
                | _ \<Rightarrow> Inl TypeError)
      in case ms of Inl e \<Rightarrow> None | Inr n \<Rightarrow> iso n)"

text \<open>\<^verbatim>\<open>str(event_node.get("eventId") or "")\<close>, the upstream event id; empty when absent.\<close>

definition event_id_str :: "pyenv \<Rightarrow> pyval \<Rightarrow> error + string" where
  "event_id_str env event_node =
     (case dict_get event_node ''eventId'' of
        Inl e \<Rightarrow> Inl e
      | Inr v \<Rightarrow> Inr (str_or_empty env v))"

definition build_item_skeleton_from_api :: "pyenv \<Rightarrow> pyval \<Rightarrow> error + item" where
  "build_item_skeleton_from_api env event_node =
     (case event_node of
        PDict kvs \<Rightarrow>
          (let get = (\<lambda>k. case map_of kvs k of None \<Rightarrow> PNone | Some v \<Rightarrow> v);
               home = str_or_empty env (get ''homeTeamName'');
               away = str_or_empty env (get ''awayTeamName'');
               date_iso = event_date_iso env (get ''eventTime'');
               league = str_or_empty env (get ''leagueName'');
               sport_slug = py_str env (py_or (get ''sportUrl'') (PStr ''soccer''));
               region = str_or_empty env (get ''regionUrl'');
               league_url = str_or_empty env (get ''leagueUrl'');
               event_url = str_or_empty env (get ''eventUrl'');
               pretty_url =
                 (if event_url \<noteq> []
                  then ''https://2up.io/pt/sports/'' @ sport_slug @ ''/'' @ region @ ''/''
                       @ league_url @ ''/'' @ event_url
                  else []);
               event_id_str = str_or_empty env (get ''eventId'')
           in case (if event_id_str \<noteq> [] then hash_id env event_id_str
                    else compute_match_id env home away date_iso) of
                Inl e \<Rightarrow> Inl e
              | Inr hashed \<Rightarrow>
                  Inr \<lparr>match_id = hashed, home = home, away = away,
                       date = (case date_iso of None \<Rightarrow> [] | Some d \<Rightarrow> d),
                       sport = (''Football'', ''soccer''),
                       league = (league,
                                 if league \<noteq> [] then replace '' '' ''-'' (lower env league) else []),
                       urls = pretty_url, bookmakers = [], status = ''pending''\<rparr>)
      | _ \<Rightarrow> Inl AttributeError)"

section \<open>The fetch cursor (lines 326-452)\<close>

text \<open>
  What \<^verbatim>\<open>session.post\<close> gives for one request: an exception of the transport, or a
  response with its status code and, when the body is JSON, the decoded body.
\<close>

datatype response = TransportFailure | Response int "pyval option"

record payload =
  startTime :: int
  endTime :: int
  pageSize :: int
  pageNum :: int

record config =
  cfg_window_ms :: int
  cfg_page_size :: int
  cfg_page_num_start :: int

text \<open>
  The variables of the two loops. An entry of \<open>results\<close> is kept with the \<^verbatim>\<open>ev_id\<close> under
  which it was appended; the run returns the items alone.
\<close>

record cursor =
  start_ms :: int
  end_ms :: int
  page :: int
  got_any_in_window :: bool
  seen_event_ids :: "string set"
  results :: "(string \<times> item) list"

definition request_payload :: "config \<Rightarrow> cursor \<Rightarrow> payload" where
  "request_payload cfg c =
     \<lparr>startTime = start_ms c, endTime = end_ms c, pageSize = cfg_page_size cfg, pageNum = page c\<rparr>"

text \<open>
  Lines 414-427: the loop over the items of a page. \<open>clock n\<close> is the time text that
  \<^verbatim>\<open>extract_markets_from_api\<close> reads for the item appended at position \<open>n\<close>.
\<close>

fun collect_events ::
  "pyenv \<Rightarrow> (nat \<Rightarrow> string) \<Rightarrow> pyval list \<Rightarrow> cursor \<Rightarrow> error + cursor" where
  "collect_events env clock [] c = Inr c"
| "collect_events env clock (ev # evs) c =
     (case event_id_str env ev of
        Inl e \<Rightarrow> Inl e
      | Inr ev_id \<Rightarrow>
          if ev_id \<noteq> [] \<and> ev_id \<in> seen_event_ids c then collect_events env clock evs c
          else
            (case build_item_skeleton_from_api env ev of
               Inl e \<Rightarrow> Inl e
             | Inr item \<Rightarrow>
                 (case extract_markets_from_api env (clock (length (results c))) ev of
                    Inl e \<Rightarrow> Inl e
                  | Inr markets \<Rightarrow>
                      collect_events env clock evs
                        (c\<lparr>results := results c @
                               [(ev_id, if markets \<noteq> [] then item\<lparr>bookmakers := markets\<rparr> else item)],
                           seen_event_ids :=
                             (if ev_id \<noteq> [] then insert ev_id (seen_event_ids c)
                              else seen_event_ids c),
                           got_any_in_window := True\<rparr>))))"

text \<open>
  Lines 384-409: the checks on a response, up to \<^verbatim>\<open>data.get("data") or {}\<close> and the items
  of the page.
\<close>

definition page_items :: "pyenv \<Rightarrow> response \<Rightarrow> error + pyval \<times> pyval list" where
  "page_items env resp =
     (case resp of
        TransportFailure \<Rightarrow> Inl RequestError
      | Response status_code body \<Rightarrow>
          if status_code \<noteq> 200 then Inl (ApiStatus status_code)
          else
            (case body of
               None \<Rightarrow> Inl JSONDecodeError
             | Some data \<Rightarrow>
                 (case data of
                    PDict kvs \<Rightarrow>
                      (let get = (\<lambda>k. case map_of kvs k of None \<Rightarrow> PNone | Some v \<Rightarrow> v)
                       in if py_str env (get ''code'') \<noteq> ''200'' then Inl EnvelopeError
                          else
                            (let d = py_or (get ''data'') (PDict [])
                             in case dict_get d ''items'' of
                                  Inl e \<Rightarrow> Inl e
                                | Inr its \<Rightarrow>
                                    (case iterate (py_or its (PList [])) of
                                       Inl e \<Rightarrow> Inl e
                                     | Inr items \<Rightarrow> Inr (d, items))))
                  | _ \<Rightarrow> Inl EnvelopeError)))"

text \<open>Lines 429-433: whether the page was the last one of the window.\<close>

definition last_page :: "pyenv \<Rightarrow> pyval \<Rightarrow> int \<Rightarrow> error + bool" where
  "last_page env d cur_page =
     (case dict_get d ''totalPages'' of
        Inl e \<Rightarrow> Inl e
      | Inr tp \<Rightarrow>
     (case py_int env (py_or tp (PInt 1)) of
        Inl e \<Rightarrow> Inl e
      | Inr total_pages \<Rightarrow>
     (case dict_get d ''page'' of
        Inl e \<Rightarrow> Inl e
      | Inr pg \<Rightarrow>
     (case py_int env (py_or pg (PInt cur_page)) of
        Inl e \<Rightarrow> Inl e
      | Inr page_now \<Rightarrow> Inr (total_pages \<le> page_now)))))"

text \<open>
  Lines 367-433, the loop over the pages of a window, on the responses the upstream
  gives in the order of the requests. The first component lists the payloads of the
  requests sent. The loop ends with an exception, or waits for a response that the list
  does not hold, or leaves the window with its cursor and the responses not yet read.
\<close>

datatype window_end = Raised error | Waiting | Left cursor "response list"

fun page_loop ::
  "pyenv \<Rightarrow> (nat \<Rightarrow> string) \<Rightarrow> config \<Rightarrow> cursor \<Rightarrow> response list \<Rightarrow> payload list \<times> window_end"
  where
  "page_loop env clock cfg c [] = ([request_payload cfg c], Waiting)"
| "page_loop env clock cfg c (r # rs) =
     (case page_items env r of
        Inl e \<Rightarrow> ([request_payload cfg c], Raised e)
      | Inr (d, items) \<Rightarrow>
          if items = [] then ([request_payload cfg c], Left c rs)
          else
            (case collect_events env clock items c of
               Inl e \<Rightarrow> ([request_payload cfg c], Raised e)
             | Inr c' \<Rightarrow>
                 (case last_page env d (page c') of
                    Inl e \<Rightarrow> ([request_payload cfg c], Raised e)
                  | Inr True \<Rightarrow> ([request_payload cfg c], Left c' rs)
                  | Inr False \<Rightarrow>
                      (let (ps, w) = page_loop env clock cfg (c'\<lparr>page := page c' + 1\<rparr>) rs
                       in (request_payload cfg c # ps, w)))))"

text \<open>The cursor at the start of a window (lines 365-366), and of the next one (439-440).\<close>

definition window_start :: "config \<Rightarrow> cursor \<Rightarrow> cursor" where
  "window_start cfg c = c\<lparr>page := cfg_page_num_start cfg, got_any_in_window := False\<rparr>"

definition next_window :: "config \<Rightarrow> cursor \<Rightarrow> cursor" where
  "next_window cfg c =
     c\<lparr>start_ms := end_ms c + 1, end_ms := end_ms c + 1 + cfg_window_ms cfg\<rparr>"

text \<open>
  Lines 359-440, the loop over the windows. The two dates of a window are made for the
  log before its first request, and \<^verbatim>\<open>datetime.fromtimestamp\<close> raises for a time it cannot
  give. The second component is the result list or the exception raised, and \<open>None\<close>
  when the run waits for a response that the list does not hold.
\<close>

function window_loop ::
  "pyenv \<Rightarrow> (nat \<Rightarrow> string) \<Rightarrow> config \<Rightarrow> cursor \<Rightarrow> response list
     \<Rightarrow> payload list \<times> (error + (string \<times> item) list) option" where
  "window_loop env clock cfg c rs =
     (case isoformat_utc env (start_ms c) of
        Inl e \<Rightarrow> ([], Some (Inl e))
      | Inr human_start \<Rightarrow>
     (case isoformat_utc env (end_ms c) of
        Inl e \<Rightarrow> ([], Some (Inl e))
      | Inr human_end \<Rightarrow>
     (case page_loop env clock cfg (window_start cfg c) rs of
        (ps, Raised e) \<Rightarrow> (ps, Some (Inl e))
      | (ps, Waiting) \<Rightarrow> (ps, None)
      | (ps, Left c' rs') \<Rightarrow>
          if \<not> got_any_in_window c' then (ps, Some (Inr (results c')))
          else (let (ps', res) = window_loop env clock cfg (next_window cfg c') rs'
                in (ps @ ps', res)))))"
  by pat_completeness auto
termination
proof -
  have reads: "length rs' < length rs" if "page_loop env clock cfg c rs = (ps, Left c' rs')"
    for env clock cfg c rs ps c' rs'
    using that
    proof (induction rs arbitrary: c ps)
      case Nil
      then show ?case by simp
    next
      case (Cons r rs)
      show ?case
      proof (cases "page_items env r")
        case (Inl e)
        with Cons.prems show ?thesis by simp
      next
        case (Inr di)
        obtain d items where di: "di = (d, items)" by (cases di)
        show ?thesis
        proof (cases "items = []")
          case True
          with Cons.prems Inr di show ?thesis by simp
        next
          case False
          show ?thesis
          proof (cases "collect_events env clock items c")
            case (Inl e)
            with Cons.prems Inr di False show ?thesis by simp
          next
            case c1: (Inr c1)
            show ?thesis
            proof (cases "last_page env d (page c1)")
              case (Inl e)
              with Cons.prems Inr di False c1 show ?thesis by simp
            next
              case l: (Inr l)
              show ?thesis
              proof (cases l)
                case True
                with Cons.prems Inr di False c1 l show ?thesis by simp
              next
                case nl: False
                obtain ps1 w1 where p1: "page_loop env clock cfg (c1\<lparr>page := page c1 + 1\<rparr>) rs = (ps1, w1)"
                  by (cases "page_loop env clock cfg (c1\<lparr>page := page c1 + 1\<rparr>) rs")
                with Cons.prems Inr di False c1 l nl have "w1 = Left c' rs'" by simp
                with Cons.IH [of "c1\<lparr>page := page c1 + 1\<rparr>" ps1] p1 show ?thesis by simp
              qed
            qed
          qed
        qed
      qed
    qed
  show ?thesis
    by (relation "measure (\<lambda>(env, clock, cfg, c, rs). length rs)")
       (auto dest: reads [OF sym])
qed

declare window_loop.simps [simp del]

text \<open>
  Lines 338-440 of \<^verbatim>\<open>scrape_api_only\<close>: \<open>now_ms\<close> is the clock at the start, in
  milliseconds. The arguments for the headers and the log have no part in the requests
  or in the value returned and are left out; a line of the log is taken to be printed
  without an exception.
\<close>

definition scrape_loop ::
  "pyenv \<Rightarrow> (nat \<Rightarrow> string) \<Rightarrow> int \<Rightarrow> int option \<Rightarrow> int \<Rightarrow> int \<Rightarrow> int \<Rightarrow> bool \<Rightarrow> response list
     \<Rightarrow> payload list \<times> (error + (string \<times> item) list) option" where
  "scrape_loop env clock now_ms max_matches hours_ahead page_size page_num_start exhaust
     responses =
     (let window_ms = hours_ahead * 3600 * 1000
      in window_loop env clock
           \<lparr>cfg_window_ms = window_ms, cfg_page_size = page_size,
            cfg_page_num_start = page_num_start\<rparr>
           \<lparr>start_ms = now_ms, end_ms = now_ms + window_ms, page = page_num_start,
            got_any_in_window = False, seen_event_ids = {}, results = []\<rparr>
           responses)"

text \<open>
  Lines 445-450: the results are written to the output file as UTF-8 text, which
  raises when the file system does or when a text of a result has a surrogate.
\<close>

definition item_texts :: "item \<Rightarrow> string list" where
  "item_texts it = [home it, away it, fst (league it), snd (league it), urls it]"

definition dump_results :: "pyenv \<Rightarrow> item list \<Rightarrow> error + item list" where
  "dump_results env items =
     (case output_error env of
        Some e \<Rightarrow> Inl e
      | None \<Rightarrow>
          if list_ex (\<lambda>t. encode_utf8 t = Inl UnicodeEncodeError) (concat (map item_texts items))
          then Inl UnicodeEncodeError else Inr items)"

text \<open>The value returned (line 452): the items, in the order they were appended.\<close>

definition scrape_api_only ::
  "pyenv \<Rightarrow> (nat \<Rightarrow> string) \<Rightarrow> int \<Rightarrow> int option \<Rightarrow> int \<Rightarrow> int \<Rightarrow> int \<Rightarrow> bool \<Rightarrow> response list
     \<Rightarrow> payload list \<times> (error + item list) option" where
  "scrape_api_only env clock now_ms max_matches hours_ahead page_size page_num_start exhaust
     responses =
     (let (ps, res) =
            scrape_loop env clock now_ms max_matches hours_ahead page_size page_num_start
              exhaust responses
      in (ps, case res of
                None \<Rightarrow> None
              | Some (Inl e) \<Rightarrow> Some (Inl e)
              | Some (Inr xs) \<Rightarrow> Some (dump_results env (map snd xs))))"

section \<open>Payloads of a well-formed shape\<close>

text \<open>
  The shape the source relies on: an event is a dict whose \<^verbatim>\<open>markets\<close> is absent, falsy or
  a list of dicts; the \<^verbatim>\<open>selections\<close> of a market likewise; the \<^verbatim>\<open>displayOdds\<close> of a
  selection is absent, falsy or a dict. Nothing is asked of the values of a price, of a
  handicap point or of the kick-off time.
\<close>

definition wf_selection :: "pyval \<Rightarrow> bool" where
  "wf_selection s =
     (case s of
        PDict kvs \<Rightarrow>
          (case map_of kvs ''displayOdds'' of
             None \<Rightarrow> True
           | Some d \<Rightarrow> (case d of PDict _ \<Rightarrow> True | _ \<Rightarrow> \<not> truthy d))
      | _ \<Rightarrow> False)"

definition wf_market :: "pyval \<Rightarrow> bool" where
  "wf_market m =
     (case m of
        PDict kvs \<Rightarrow>
          (case map_of kvs ''selections'' of
             None \<Rightarrow> True
           | Some sel \<Rightarrow> (case sel of PList ss \<Rightarrow> list_all wf_selection ss | _ \<Rightarrow> \<not> truthy sel))
      | _ \<Rightarrow> False)"

definition wf_event :: "pyval \<Rightarrow> bool" where
  "wf_event ev =
     (case ev of
        PDict kvs \<Rightarrow>
          (case map_of kvs ''markets'' of
             None \<Rightarrow> True
           | Some mk \<Rightarrow> (case mk of PList ms \<Rightarrow> list_all wf_market ms | _ \<Rightarrow> \<not> truthy mk))
      | _ \<Rightarrow> False)"

section \<open>What an event offers\<close>

text \<open>
  The markets of an event and the selections of a market as the source iterates them,
  and the name, the type code, the outcome and the price that it reads from them. The
  price of a selection is \<open>None\<close> when the source skips the selection for its price.
\<close>

definition event_markets :: "pyval \<Rightarrow> pyval list" where
  "event_markets ev =
     (case dict_get ev ''markets'' of
        Inl e \<Rightarrow> []
      | Inr mk \<Rightarrow> (case iterate (py_or mk (PList [])) of Inl e \<Rightarrow> [] | Inr ms \<Rightarrow> ms))"

definition market_selections :: "pyval \<Rightarrow> pyval list" where
  "market_selections m =
     (case dict_get m ''selections'' of
        Inl e \<Rightarrow> []
      | Inr sel \<Rightarrow> (case iterate (py_or sel (PList [])) of Inl e \<Rightarrow> [] | Inr ss \<Rightarrow> ss))"

definition market_name :: "pyenv \<Rightarrow> pyval \<Rightarrow> string" where
  "market_name env m =
     (case dict_get m ''name'' of Inl e \<Rightarrow> [] | Inr v \<Rightarrow> lower env (str_or_empty env v))"

definition market_type_id :: "pyenv \<Rightarrow> pyval \<Rightarrow> string" where
  "market_type_id env m =
     (case dict_get m ''marketTypeId'' of Inl e \<Rightarrow> [] | Inr v \<Rightarrow> lower env (str_or_empty env v))"

definition selection_outcome :: "pyenv \<Rightarrow> pyval \<Rightarrow> string" where
  "selection_outcome env s =
     (case dict_get s ''outcomeType'' of Inl e \<Rightarrow> [] | Inr v \<Rightarrow> lower env (str_or_empty env v))"

definition selection_price :: "pyenv \<Rightarrow> pyval \<Rightarrow> string option" where
  "selection_price env s =
     (case selection_odds s of
        Inl e \<Rightarrow> None
      | Inr dec \<Rightarrow>
          (case format_decimal_str env dec of
             None \<Rightarrow> None
           | Some p \<Rightarrow> if p = [] then None else Some p))"

text \<open>\<open>has_leg env ss outs p\<close>: a selection of \<open>ss\<close> with an outcome of \<open>outs\<close> has the price \<open>p\<close>.\<close>

definition has_leg :: "pyenv \<Rightarrow> pyval list \<Rightarrow> string list \<Rightarrow> string \<Rightarrow> bool" where
  "has_leg env ss outs p =
     list_ex (\<lambda>s. selection_outcome env s \<in> set outs \<and> selection_price env s = Some p) ss"

text \<open>\<open>offers ms p\<close>: a selection of a market of \<open>ms\<close> has the price \<open>p\<close>.\<close>

definition offers :: "pyenv \<Rightarrow> pyval list \<Rightarrow> string \<Rightarrow> bool" where
  "offers env ms p = list_ex (\<lambda>m. list_ex (\<lambda>s. selection_price env s = Some p) (market_selections m)) ms"

text \<open>The prices that an entry of \<^verbatim>\<open>odds\<close> carries, \<open>None\<close> for a leg that is not priced.\<close>

fun leg_prices :: "odds \<Rightarrow> string option list" where
  "leg_prices (MoneylineOdds h d a) = [Some h, Some d, Some a]"
| "leg_prices (TotalsLine k ov un) = [ov, un]"
| "leg_prices (HandicapLine k h a) = [Some h, Some a]"

section \<open>Example payloads\<close>

text \<open>
  An interpreter for the examples: CPython 3.11 on the values that the examples read.
  Its tables hold the SHA-256 digests of the keys and the dates of the times that occur
  there, the decimal digits and the digits of Unicode 14, the limit of 4300 digits, and
  a file system that takes the output. What no example reads is arbitrary: a digest or
  a date outside the tables, the text of a float or of a container, the lowering of a
  string that is not ASCII and the order of a list with NaN keys.
\<close>

definition sha256_table :: "(string \<times> 256 word) list" where
  "sha256_table =
     [(''7'', 0x7902699be42c8a8e46fbbb4501726517e86b22c56a189f7625a6da49081b2451),
      (''8'', 0x2c624232cdd221771294dfbb310aca000a0df6ac8b66b696d90ef06fdefb64a3),
      (''Alpha__Beta__'', 0x9cda9c956bff855a67687afdc5a0644b3e1cce9cdcb8a67639c954a50737516f),
      (''____'', 0xc0a694d0d434fedd659912c1858f11a03a90dc3711fdcc2c843478946dabe5d0)]"

definition iso_table :: "(int \<times> string) list" where
  "iso_table =
     [(0, ''1970-01-01T00:00:00+00:00''),
      (172800000, ''1970-01-03T00:00:00+00:00''),
      (172800001, ''1970-01-03T00:00:00.001000+00:00''),
      (345600001, ''1970-01-05T00:00:00.001000+00:00'')]"

text \<open>The first code point of each run of the ten decimal digits of a script.\<close>

definition decimal_zeros :: "nat list" where
  "decimal_zeros =
     [0x660, 0x6f0, 0x7c0, 0x966, 0x9e6, 0xa66, 0xae6, 0xb66, 0xbe6, 0xc66, 0xce6, 0xd66,
      0xde6, 0xe50, 0xed0, 0xf20, 0x1040, 0x1090, 0x17e0, 0x1810, 0x1946, 0x19d0, 0x1a80,
      0x1a90, 0x1b50, 0x1bb0, 0x1c40, 0x1c50, 0xa620, 0xa8d0, 0xa900, 0xa9d0, 0xa9f0,
      0xaa50, 0xabf0, 0xff10, 0x104a0, 0x10d30, 0x11066, 0x110f0, 0x11136, 0x111d0,
      0x112f0, 0x11450, 0x114d0, 0x11650, 0x116c0, 0x11730, 0x118e0, 0x11950, 0x11c50,
      0x11d50, 0x11da0, 0x16a60, 0x16ac0, 0x16b50, 0x1d7ce, 0x1d7d8, 0x1d7e2, 0x1d7ec,
      0x1d7f6, 0x1e140, 0x1e2f0, 0x1e950, 0x1fbf0]"

text \<open>The ranges of the digits that are not decimal digits.\<close>

definition other_digits :: "(nat \<times> nat) list" where
  "other_digits =
     [(0xb2, 0xb3), (0xb9, 0xb9), (0x1369, 0x1371), (0x19da, 0x19da), (0x2070, 0x2070),
      (0x2074, 0x2079), (0x2080, 0x2089), (0x2460, 0x2468), (0x2474, 0x247c),
      (0x2488, 0x2490), (0x24ea, 0x24ea), (0x24f5, 0x24fd), (0x24ff, 0x24ff),
      (0x2776, 0x277e), (0x2780, 0x2788), (0x278a, 0x2792), (0x10a40, 0x10a43),
      (0x10e60, 0x10e68), (0x11052, 0x1105a), (0x1f100, 0x1f10a)]"

definition env0 :: pyenv where
  "env0 =
     \<lparr>sha256 = (\<lambda>b. case map_of sha256_table b of None \<Rightarrow> 0 | Some w \<Rightarrow> w),
      isoformat_utc = (\<lambda>ms. case map_of iso_table ms of None \<Rightarrow> Inl ValueError | Some t \<Rightarrow> Inr t),
      repr = (\<lambda>v. []),
      unicode_todecimal =
        (\<lambda>c. case find (\<lambda>z. z \<le> c \<and> c < z + 10) decimal_zeros of
                None \<Rightarrow> None
              | Some z \<Rightarrow> Some (digit_char (c - z))),
      unicode_isdigit =
        (\<lambda>c. list_ex (\<lambda>z. z \<le> c \<and> c < z + 10) decimal_zeros
              \<or> list_ex (\<lambda>(a, b). a \<le> c \<and> c \<le> b) other_digits),
      str_lower = map lower_char,
      int_max_str_digits = 4300,
      sort_order = (\<lambda>ks. [0..<length ks]),
      output_error = None\<rparr>"

definition clock0 :: "nat \<Rightarrow> string" where
  "clock0 = (\<lambda>n. ''2026-01-01T00:00:00Z'')"

definition cfg0 :: config where
  "cfg0 = \<lparr>cfg_window_ms = 172800000, cfg_page_size = 50, cfg_page_num_start = 1\<rparr>"

definition cursor0 :: cursor where
  "cursor0 = \<lparr>start_ms = 0, end_ms = 172800000, page = 1, got_any_in_window = False,
              seen_event_ids = {}, results = []\<rparr>"

text \<open>A page of the given items, in a successful envelope.\<close>

definition page_of :: "pyval list \<Rightarrow> response" where
  "page_of items =
     Response 200 (Some (PDict [(''code'', PInt 200), (''data'', PDict [(''items'', PList items)])]))"

text \<open>An event with an upstream id and two team names, and its fixture record.\<close>

definition ev_id7 :: pyval where
  "ev_id7 =
     PDict [(''eventId'', PInt 7), (''homeTeamName'', PStr ''Alpha''),
            (''awayTeamName'', PStr ''Beta'')]"

definition item_of :: "int \<Rightarrow> string \<Rightarrow> string \<Rightarrow> item" where
  "item_of i h a =
     \<lparr>match_id = i, home = h, away = a, date = [], sport = (''Football'', ''soccer''),
      league = ([], []), urls = [], bookmakers = [], status = ''pending''\<rparr>"

text \<open>An event without an upstream id.\<close>

definition ev_no_id :: pyval where
  "ev_no_id = PDict [(''homeTeamName'', PStr ''Alpha''), (''awayTeamName'', PStr ''Beta'')]"

text \<open>A second event with the upstream id 7, given as a text.\<close>

definition ev_id7_again :: pyval where
  "ev_id7_again = PDict [(''eventId'', PStr ''7''), (''homeTeamName'', PStr ''Gamma'')]"

section \<open>Properties\<close>

subsection \<open>The fetch cursor\<close>

text \<open>
  Claim C10. The arguments \<^verbatim>\<open>max_matches\<close> and \<^verbatim>\<open>exhaust\<close> of \<^verbatim>\<open>scrape_api_only\<close> have no
  influence: two runs that differ only in them send the same requests and return the same
  list (or raise the same exception) on the same responses. In particular the list is
  not cut to \<^verbatim>\<open>max_matches\<close> items.
\<close>

theorem scrape_ignores_max_matches_and_exhaust:
  "scrape_api_only env clock now_ms max_matches1 hours_ahead page_size page_num_start exhaust1
     responses
   = scrape_api_only env clock now_ms max_matches2 hours_ahead page_size page_num_start exhaust2
       responses"
  by (simp add: scrape_api_only_def scrape_loop_def)

lemma page_items_page_of:
  "page_items env (page_of items) = Inr (PDict [(''items'', PList items)], items)"
  by (simp add: page_items_def page_of_def py_or_def dict_get_def int_str_def
      digits_of.simps digit_char_def)

text \<open>What the loop over the items of a page leaves in the cursor.\<close>

lemma collect_events_cursor:
  "collect_events env clock evs c = Inr c' \<Longrightarrow>
   start_ms c' = start_ms c \<and> end_ms c' = end_ms c \<and> page c' = page c
   \<and> (\<exists>new. results c' = results c @ new)
   \<and> seen_event_ids c \<subseteq> seen_event_ids c'
   \<and> got_any_in_window c' = (got_any_in_window c \<or> results c' \<noteq> results c)"
proof (induction evs arbitrary: c)
  case Nil
  then show ?case by simp
next
  case (Cons ev evs)
  from Cons.prems obtain i where i: "event_id_str env ev = Inr i"
    by (cases "event_id_str env ev") auto
  show ?case
  proof (cases "i \<noteq> [] \<and> i \<in> seen_event_ids c")
    case True
    with Cons.prems i have "collect_events env clock evs c = Inr c'" by simp
    from Cons.IH [OF this] show ?thesis .
  next
    case False
    with Cons.prems i obtain it where it: "build_item_skeleton_from_api env ev = Inr it"
      by (cases "build_item_skeleton_from_api env ev") auto
    with Cons.prems i False obtain ms where
      ms: "extract_markets_from_api env (clock (length (results c))) ev = Inr ms"
      by (cases "extract_markets_from_api env (clock (length (results c))) ev") auto
    let ?c = "c\<lparr>results := results c @ [(i, if ms \<noteq> [] then it\<lparr>bookmakers := ms\<rparr> else it)],
                seen_event_ids := (if i \<noteq> [] then insert i (seen_event_ids c)
                                   else seen_event_ids c),
                got_any_in_window := True\<rparr>"
    from Cons.prems i False it ms have "collect_events env clock evs ?c = Inr c'" by simp
    from Cons.IH [OF this] show ?thesis by (auto split: if_splits)
  qed
qed

text \<open>A page appends nothing exactly when each of its events has an id seen before.\<close>

lemma collect_events_duplicates:
  "collect_events env clock evs c = Inr c' \<Longrightarrow>
   (results c' = results c)
     = (\<forall>ev\<in>set evs. \<exists>i. event_id_str env ev = Inr i \<and> i \<noteq> [] \<and> i \<in> seen_event_ids c)"
proof (induction evs arbitrary: c)
  case Nil
  then show ?case by simp
next
  case (Cons ev evs)
  from Cons.prems obtain i where i: "event_id_str env ev = Inr i"
    by (cases "event_id_str env ev") auto
  show ?case
  proof (cases "i \<noteq> [] \<and> i \<in> seen_event_ids c")
    case True
    with Cons.prems i have "collect_events env clock evs c = Inr c'" by simp
    from Cons.IH [OF this] i True show ?thesis by simp
  next
    case False
    with Cons.prems i obtain it where it: "build_item_skeleton_from_api env ev = Inr it"
      by (cases "build_item_skeleton_from_api env ev") auto
    with Cons.prems i False obtain ms where
      ms: "extract_markets_from_api env (clock (length (results c))) ev = Inr ms"
      by (cases "extract_markets_from_api env (clock (length (results c))) ev") auto
    let ?c = "c\<lparr>results := results c @ [(i, if ms \<noteq> [] then it\<lparr>bookmakers := ms\<rparr> else it)],
                seen_event_ids := (if i \<noteq> [] then insert i (seen_event_ids c)
                                   else seen_event_ids c),
                got_any_in_window := True\<rparr>"
    from Cons.prems i False it ms have "collect_events env clock evs ?c = Inr c'" by simp
    from collect_events_cursor [OF this] have "results c' \<noteq> results c" by auto
    with i False show ?thesis by auto
  qed
qed

text \<open>What the loop over the pages of a window reads and leaves.\<close>

lemma page_loop_cases:
  assumes "page_loop env clock cfg c (r # rs) = (ps, w)"
  shows "(\<exists>e. ps = [request_payload cfg c] \<and> w = Raised e
            \<and> (page_items env r = Inl e
                \<or> (\<exists>d items. page_items env r = Inr (d, items) \<and> items \<noteq> []
                     \<and> (collect_events env clock items c = Inl e
                         \<or> (\<exists>c1. collect_events env clock items c = Inr c1
                               \<and> last_page env d (page c1) = Inl e)))))
       \<or> (\<exists>d. page_items env r = Inr (d, []) \<and> ps = [request_payload cfg c] \<and> w = Left c rs)
       \<or> (\<exists>d items c1. page_items env r = Inr (d, items) \<and> items \<noteq> []
            \<and> collect_events env clock items c = Inr c1
            \<and> ((last_page env d (page c1) = Inr True \<and> ps = [request_payload cfg c]
                 \<and> w = Left c1 rs)
                \<or> (last_page env d (page c1) = Inr False
                    \<and> (\<exists>ps1. page_loop env clock cfg (c1\<lparr>page := page c1 + 1\<rparr>) rs = (ps1, w)
                          \<and> ps = request_payload cfg c # ps1))))"
proof (cases "page_items env r")
  case (Inl e)
  with assms show ?thesis by auto
next
  case (Inr di)
  obtain d items where di: "di = (d, items)" by (cases di)
  show ?thesis
  proof (cases "items = []")
    case True
    with assms Inr di show ?thesis by auto
  next
    case False
    show ?thesis
    proof (cases "collect_events env clock items c")
      case (Inl e)
      with assms Inr di False show ?thesis by auto
    next
      case c1: (Inr c1)
      show ?thesis
      proof (cases "last_page env d (page c1)")
        case (Inl e)
        with assms Inr di False c1 show ?thesis by auto
      next
        case l: (Inr l)
        show ?thesis
        proof (cases l)
          case True
          with assms Inr di False c1 l show ?thesis by auto
        next
          case nl: False
          obtain ps1 w1 where "page_loop env clock cfg (c1\<lparr>page := page c1 + 1\<rparr>) rs = (ps1, w1)"
            by (cases "page_loop env clock cfg (c1\<lparr>page := page c1 + 1\<rparr>) rs")
          with assms Inr di False c1 l nl show ?thesis by auto
        qed
      qed
    qed
  qed
qed

lemma page_loop_first:
  "page_loop env clock cfg c rs = (ps, w) \<Longrightarrow> \<exists>ps1. ps = request_payload cfg c # ps1"
proof (cases rs)
  case Nil
  assume "page_loop env clock cfg c rs = (ps, w)"
  with Nil show ?thesis by auto
next
  case (Cons r rs1)
  assume "page_loop env clock cfg c rs = (ps, w)"
  with Cons page_loop_cases [of env clock cfg c r rs1 ps w] show ?thesis by auto
qed

lemma page_loop_left:
  "page_loop env clock cfg c rs = (ps, Left c' rs') \<Longrightarrow>
   rs' = drop (length ps) rs \<and> length ps \<le> length rs
   \<and> start_ms c' = start_ms c \<and> end_ms c' = end_ms c
   \<and> (\<exists>new. results c' = results c @ new)
   \<and> seen_event_ids c \<subseteq> seen_event_ids c'
   \<and> got_any_in_window c' = (got_any_in_window c \<or> results c' \<noteq> results c)"
proof (induction rs arbitrary: c ps)
  case Nil
  then show ?case by simp
next
  case (Cons r rs)
  from page_loop_cases [OF Cons.prems] show ?case
  proof (elim disjE exE conjE)
    fix d items c1 ps1
    assume ci: "collect_events env clock items c = Inr c1"
      and pl: "page_loop env clock cfg (c1\<lparr>page := page c1 + 1\<rparr>) rs = (ps1, Left c' rs')"
      and ps: "ps = request_payload cfg c # ps1"
    from Cons.IH [OF pl] collect_events_cursor [OF ci] ps show ?thesis by auto
  next
    fix d items c1
    assume "collect_events env clock items c = Inr c1" "Left c' rs' = Left c1 rs"
      "ps = [request_payload cfg c]"
    with collect_events_cursor [of env clock items c c1] show ?thesis by auto
  qed auto
qed

lemma page_loop_reads:
  "page_loop env clock cfg c rs = (ps, Left c' rs') \<Longrightarrow> length rs' < length rs"
  using page_loop_left [of env clock cfg c rs ps c' rs'] page_loop_first [of env clock cfg c rs ps]
  by auto

text \<open>A response that fails ends the loop over the pages with its exception.\<close>

lemma page_loop_failure:
  "page_loop env clock cfg c rs = (ps, w) \<Longrightarrow> k < length ps \<Longrightarrow> k < length rs \<Longrightarrow>
   page_items env (rs ! k) = Inl e \<Longrightarrow> w = Raised e \<and> length ps = Suc k"
proof (induction rs arbitrary: c ps k)
  case Nil
  then show ?case by simp
next
  case (Cons r rs)
  show ?case
  proof (cases k)
    case 0
    with Cons.prems show ?thesis by auto
  next
    case (Suc k')
    from page_loop_cases [OF Cons.prems(1)] Cons.prems(2) Suc
    obtain c1 ps1 where pl: "page_loop env clock cfg (c1\<lparr>page := page c1 + 1\<rparr>) rs = (ps1, w)"
      and ps: "ps = request_payload cfg c # ps1"
      by auto
    from Cons.IH [OF pl, of k'] Cons.prems ps Suc show ?thesis by simp
  qed
qed

subsection \<open>The synthetic id\<close>

lemma hex_val_hex_char: "d < 16 \<Longrightarrow> hex_val (hex_char d) = d"
proof -
  have "\<forall>d\<in>set [0..<16]. hex_val (hex_char d) = d"
    by (simp add: upt_rec [of _ "numeral _"] hex_val_def hex_char_def)
  then show "d < 16 \<Longrightarrow> hex_val (hex_char d) = d" by simp
qed

lemma hex_fold:
  "j \<le> 64 \<Longrightarrow>
   foldl (\<lambda>acc c. 16 * acc + hex_val c) 0
     (map (\<lambda>i. hex_char ((n div 2 ^ (4 * (63 - i))) mod 16)) [0..<j])
   = (n div 2 ^ (4 * (64 - j))) mod 16 ^ j"
proof (induction j)
  case 0
  then show ?case by simp
next
  case (Suc j)
  let ?a = "(2::nat) ^ (4 * (63 - j))"
  have e: "4 * (64 - j) = 4 * (63 - j) + 4" using Suc.prems by simp
  have a: "(2::nat) ^ (4 * (64 - j)) = ?a * 16" unfolding e power_add by simp
  have d: "n div 2 ^ (4 * (64 - j)) = (n div ?a) div 16" by (simp add: a div_mult2_eq)
  have "16 * ((n div ?a) div 16 mod 16 ^ j) + (n div ?a) mod 16 = (n div ?a) mod 16 ^ Suc j"
    by (simp add: mod_mult2_eq add.commute)
  with Suc show ?case by (simp add: hex_val_hex_char d)
qed

lemma int16_hexdigest_take:
  "int16 (take 10 (hexdigest w)) = int (unat w div 2 ^ 216)"
proof -
  have t: "take 10 [0..<64] = [0..<10]" by (simp add: take_upt)
  have "unat w div 2 ^ 216 < 2 ^ 40"
    using unsigned_less [of w, where ?'a = nat] by (simp add: less_mult_imp_div_less)
  then have m: "(unat w div 2 ^ 216) mod 16 ^ 10 = unat w div 2 ^ 216" by simp
  have u: "unat (drop_bit k w) = unat w div 2 ^ k" for k
    unfolding unat_drop_bit_eq by (simp add: drop_bit_eq_div)
  show ?thesis
    using hex_fold [of 10 "unat w"] m
    by (simp add: int16_def hexdigest_def take_map t u)
qed

lemma sha_7:
  "sha256 env0 ''7'' = 0x7902699be42c8a8e46fbbb4501726517e86b22c56a189f7625a6da49081b2451"
  by (simp add: env0_def sha256_table_def)

lemma ascii_7: "encode_utf8 ''7'' = Inr ''7''"
  by (simp add: encode_utf8_def code_point_def is_continuation_def)

lemma skeleton_id7:
  "build_item_skeleton_from_api env0 ev_id7 = Inr (item_of 519731518436 ''Alpha'' ''Beta'')"
  by (simp add: build_item_skeleton_from_api_def ev_id7_def item_of_def str_or_empty_def
      py_or_def event_date_iso_def int_str_def digits_of.simps digit_char_def hash_id_def
      ascii_7 int16_hexdigest_take sha_7)

lemma hex_fold_all:
  assumes "n < 2 ^ 256"
  shows "foldl (\<lambda>acc c. 16 * acc + hex_val c) 0
     (map (\<lambda>i. hex_char ((n div 2 ^ (4 * (63 - i))) mod 16)) [0..<64]) = n"
proof -
  from assms have "n mod 16 ^ 64 = n" by simp
  with hex_fold [of 64 n] show ?thesis by simp
qed

lemma unat_drop_bit_div: "unat (drop_bit k w) = unat w div 2 ^ k"
  unfolding unat_drop_bit_eq by (simp add: drop_bit_eq_div)

lemma int16_hexdigest: "int16 (hexdigest w) = int (unat w)"
  using hex_fold_all [of "unat w"] unsigned_less [of w, where ?'a = nat]
  by (simp add: int16_def hexdigest_def unat_drop_bit_div)

lemma skeleton_key:
  assumes "build_item_skeleton_from_api env ev = Inr it"
  shows "\<exists>i. event_id_str env ev = Inr i
     \<and> hash_id env (if i \<noteq> [] then i else home it @ ''__'' @ away it @ ''__'' @ date it)
         = Inr (match_id it)"
  using assms
  by (cases ev)
     (auto simp: build_item_skeleton_from_api_def event_id_str_def dict_get_def Let_def
        compute_match_id_def split: sum.splits)

lemma hash_id_value:
  assumes "hash_id env key = Inr n"
  shows "encode_utf8 key = Inr key \<and> n = int16 (take 10 (hexdigest (sha256 env key)))"
  using assms by (auto simp: hash_id_def encode_utf8_def split: if_splits)

text \<open>
  Claim C8. The id of a fixture record is the integer value of the first 10 hexadecimal
  digits of the SHA-256 digest of a key, which are the highest 40 bits of the digest:
  the key is the upstream event id when it is present, and otherwise
  \<^verbatim>\<open>home + "__" + away + "__" + date\<close> of the record (first conjunct). The 64 digits of
  \<^verbatim>\<open>hexdigest\<close> read in base 16 are the digest, and the first 10 of them its highest 40
  bits (second and third conjunct). So two events with the same upstream event id get
  the same id whatever else they hold (fourth conjunct), and two events without one get
  the same id when home, away and date agree (fifth conjunct). The skeleton reads no
  clock and no random source: its only arguments are the library functions and the
  event. The record that the loop over a page appends for an event has the id of the
  skeleton of that event (sixth conjunct).
\<close>

theorem match_id_derivation:
  "(build_item_skeleton_from_api env ev = Inr it \<longrightarrow>
      (\<exists>i key. event_id_str env ev = Inr i
        \<and> key = (if i \<noteq> [] then i else home it @ ''__'' @ away it @ ''__'' @ date it)
        \<and> encode_utf8 key = Inr key
        \<and> match_id it = int16 (take 10 (hexdigest (sha256 env key)))
        \<and> match_id it = int (unat (sha256 env key) div 2 ^ 216)))
   \<and> (length (hexdigest w) = 64 \<and> int16 (hexdigest w) = int (unat w))
   \<and> int16 (take 10 (hexdigest w)) = int (unat w div 2 ^ 216)
   \<and> (build_item_skeleton_from_api env ev = Inr it \<and> build_item_skeleton_from_api env ev' = Inr it'
        \<and> event_id_str env ev = Inr i \<and> event_id_str env ev' = Inr i \<and> i \<noteq> [] \<longrightarrow>
        match_id it' = match_id it)
   \<and> (build_item_skeleton_from_api env ev = Inr it \<and> build_item_skeleton_from_api env ev' = Inr it'
        \<and> event_id_str env ev = Inr [] \<and> event_id_str env ev' = Inr []
        \<and> home it' = home it \<and> away it' = away it \<and> date it' = date it \<longrightarrow>
        match_id it' = match_id it)
   \<and> (collect_events env clock [ev] c = Inr c' \<and> results c' \<noteq> results c \<longrightarrow>
        (\<exists>i rec. results c' = results c @ [(i, rec)] \<and> event_id_str env ev = Inr i
           \<and> map_sum id match_id (build_item_skeleton_from_api env ev) = Inr (match_id rec)))"
proof (intro conjI impI)
  assume a: "build_item_skeleton_from_api env ev = Inr it"
  from skeleton_key [OF a] obtain i where i: "event_id_str env ev = Inr i"
    and h: "hash_id env (if i \<noteq> [] then i else home it @ ''__'' @ away it @ ''__'' @ date it)
         = Inr (match_id it)"
    by blast
  from hash_id_value [OF h] i
  show "\<exists>i key. event_id_str env ev = Inr i
        \<and> key = (if i \<noteq> [] then i else home it @ ''__'' @ away it @ ''__'' @ date it)
        \<and> encode_utf8 key = Inr key
        \<and> match_id it = int16 (take 10 (hexdigest (sha256 env key)))
        \<and> match_id it = int (unat (sha256 env key) div 2 ^ 216)"
    by (simp add: int16_hexdigest_take)
next
  show "length (hexdigest w) = 64" by (simp add: hexdigest_def)
  show "int16 (hexdigest w) = int (unat w)" by (rule int16_hexdigest)
  show "int16 (take 10 (hexdigest w)) = int (unat w div 2 ^ 216)" by (rule int16_hexdigest_take)
next
  assume "build_item_skeleton_from_api env ev = Inr it \<and> build_item_skeleton_from_api env ev' = Inr it'
        \<and> event_id_str env ev = Inr i \<and> event_id_str env ev' = Inr i \<and> i \<noteq> []"
  with skeleton_key [of env ev it] skeleton_key [of env ev' it']
  show "match_id it' = match_id it" by auto
next
  assume "build_item_skeleton_from_api env ev = Inr it \<and> build_item_skeleton_from_api env ev' = Inr it'
        \<and> event_id_str env ev = Inr [] \<and> event_id_str env ev' = Inr []
        \<and> home it' = home it \<and> away it' = away it \<and> date it' = date it"
  with skeleton_key [of env ev it] skeleton_key [of env ev' it']
  show "match_id it' = match_id it" by auto
next
  assume "collect_events env clock [ev] c = Inr c' \<and> results c' \<noteq> results c"
  then show "\<exists>i rec. results c' = results c @ [(i, rec)] \<and> event_id_str env ev = Inr i
           \<and> map_sum id match_id (build_item_skeleton_from_api env ev) = Inr (match_id rec)"
    by (auto split: sum.splits if_splits)
qed

lemma skeleton_no_id:
  "build_item_skeleton_from_api env0 ev_no_id = Inr (item_of 673682593131 ''Alpha'' ''Beta'')"
proof -
  have e: "encode_utf8 ''Alpha__Beta__'' = Inr ''Alpha__Beta__''"
    by (simp add: encode_utf8_def code_point_def is_continuation_def)
  have s: "sha256 env0 ''Alpha__Beta__''
      = 0x9cda9c956bff855a67687afdc5a0644b3e1cce9cdcb8a67639c954a50737516f"
    by (simp add: env0_def sha256_table_def)
  show ?thesis
    by (simp add: build_item_skeleton_from_api_def ev_no_id_def item_of_def str_or_empty_def
        py_or_def event_date_iso_def hash_id_def compute_match_id_def e s int16_hexdigest_take)
qed

lemma hexdigest_7:
  "hexdigest (sha256 env0 ''7'')
     = ''7902699be42c8a8e46fbbb4501726517e86b22c56a189f7625a6da49081b2451''"
  by (simp add: sha_7 hexdigest_def unat_drop_bit_div hex_char_def
      upt_rec [of 0] upt_rec [of "Suc _"] upt_rec [of "numeral _"])

lemma extract_no_markets:
  "map_of kvs ''markets'' = None \<Longrightarrow> extract_markets_from_api env now_iso (PDict kvs) = Inr []"
  by (simp add: extract_markets_from_api_def dict_get_def py_or_def emit_markets_def)

lemma event_id_7: "event_id_str env0 ev_id7 = Inr ''7''" "event_id_str env0 ev_id7_again = Inr ''7''"
  by (simp_all add: event_id_str_def ev_id7_def ev_id7_again_def dict_get_def str_or_empty_def
      py_or_def int_str_def digits_of.simps digit_char_def)

lemma skeleton_id7_again:
  "build_item_skeleton_from_api env0 ev_id7_again = Inr (item_of 519731518436 ''Gamma'' [])"
  by (simp add: build_item_skeleton_from_api_def ev_id7_again_def item_of_def str_or_empty_def
      py_or_def event_date_iso_def hash_id_def ascii_7 int16_hexdigest_take sha_7)

lemma collect_id7:
  "collect_events env0 clock0 [ev_id7] cursor0
     = Inr (cursor0\<lparr>results := [(''7'', item_of 519731518436 ''Alpha'' ''Beta'')],
                    seen_event_ids := {''7''}, got_any_in_window := True\<rparr>)"
  by (simp add: event_id_7 skeleton_id7 cursor0_def)
     (simp add: ev_id7_def extract_no_markets)

text \<open>
  The event with the upstream id 7 and the event without one, under the real digests:
  the ids are the ones the interpreter gives, 519731518436 for the key \<^verbatim>\<open>7\<close> and
  673682593131 for the key \<^verbatim>\<open>Alpha__Beta__\<close>. A second event with the id 7, given as a
  text and with another home team, has the id of the first, and the record appended for
  the first event has that id.
\<close>

theorem match_id_derivation_witness:
  "map_sum id match_id (build_item_skeleton_from_api env0 ev_id7) = Inr 519731518436
   \<and> event_id_str env0 ev_id7 = Inr ''7''
   \<and> hexdigest (sha256 env0 ''7'')
       = ''7902699be42c8a8e46fbbb4501726517e86b22c56a189f7625a6da49081b2451''
   \<and> int16 ''7902699be4'' = 519731518436
   \<and> map_sum id match_id (build_item_skeleton_from_api env0 ev_id7_again) = Inr 519731518436
   \<and> map_sum id match_id (build_item_skeleton_from_api env0 ev_no_id) = Inr 673682593131
   \<and> event_id_str env0 ev_no_id = Inr []
   \<and> map_sum id (\<lambda>c. map (\<lambda>(i, rec). (i, match_id rec)) (results c))
        (collect_events env0 clock0 [ev_id7] cursor0) = Inr [(''7'', 519731518436)]"
proof -
  let ?it = "item_of 519731518436 ''Alpha'' ''Beta''"
  let ?it' = "item_of 519731518436 ''Gamma'' []"
  let ?no = "item_of 673682593131 ''Alpha'' ''Beta''"
  let ?c = "cursor0\<lparr>results := [(''7'', ?it)], seen_event_ids := {''7''},
                   got_any_in_window := True\<rparr>"
  have j: "event_id_str env0 ev_no_id = Inr []"
    by (simp add: event_id_str_def ev_no_id_def dict_get_def str_or_empty_def py_or_def)
  have r: "results ?c \<noteq> results cursor0" by (simp add: cursor0_def)
  note t = match_id_derivation [of env0 ev_id7 ?it "sha256 env0 ''7''" ev_id7_again ?it' "''7''"
      clock0 cursor0 ?c]
  note u = match_id_derivation [of env0 ev_no_id ?no "sha256 env0 ''7''" ev_no_id ?no "[]"
      clock0 cursor0 ?c]
  from t skeleton_id7 event_id_7
  have a: "match_id ?it = int16 (take 10 (hexdigest (sha256 env0 ''7'')))" by simp
  from t skeleton_id7 skeleton_id7_again event_id_7
  have b: "match_id ?it' = match_id ?it" by simp
  from u skeleton_no_id j
  have c: "match_id ?no = int (unat (sha256 env0 ''Alpha__Beta__'') div 2 ^ 216)"
    by (simp add: item_of_def)
  from t collect_id7 r
  have d: "\<exists>i rec. results ?c = results cursor0 @ [(i, rec)] \<and> event_id_str env0 ev_id7 = Inr i
      \<and> map_sum id match_id (build_item_skeleton_from_api env0 ev_id7) = Inr (match_id rec)"
    by blast
  from a have "int16 ''7902699be4'' = 519731518436" by (simp add: hexdigest_7 item_of_def)
  moreover have "map_sum id (\<lambda>c. map (\<lambda>(i, rec). (i, match_id rec)) (results c))
        (collect_events env0 clock0 [ev_id7] cursor0) = Inr [(''7'', 519731518436)]"
    using d unfolding collect_id7 by (simp add: item_of_def cursor0_def)
  ultimately show ?thesis
    using b c j
    by (simp add: skeleton_id7 skeleton_id7_again skeleton_no_id hexdigest_7 event_id_7
        item_of_def del: collect_events.simps)
qed

end
